theory Spec2Isabelle
  imports Main "HOL-Library.Word" "HOL-Library.FSet"
begin

unbundle bit_operations_syntax

section \<open>External collaborators\<close>

text \<open>
  \<^verbatim>\<open>elements.py\<close> imports \<^verbatim>\<open>hashlib\<close>, \<^verbatim>\<open>cirq\<close> and \<^verbatim>\<open>pyqir\<close>. The hash is
  written out below; the two libraries are taken as parameters: the code
  uses only the few entry points collected in the records \<open>cirq_lib\<close> and
  \<open>pyqir_lib\<close>.
\<close>

subsection \<open>Python exceptions\<close>

text \<open>
  \<open>AttributeError\<close> is what reading an attribute that an object does not have
  raises (the argument is the attribute's name); \<open>Raised x\<close> is an exception \<open>x\<close>
  that comes out of a collaborator (the circuit library or a visitor method).
\<close>

datatype 'x exn = AttributeError string | Raised 'x

subsection \<open>\<^verbatim>\<open>hashlib.sha256\<close>\<close>

type_synonym byte = "8 word"
type_synonym u32 = "32 word"

definition Ch :: "u32 \<Rightarrow> u32 \<Rightarrow> u32 \<Rightarrow> u32" where
  "Ch x y z = (x AND y) XOR (NOT x AND z)"

definition Maj :: "u32 \<Rightarrow> u32 \<Rightarrow> u32 \<Rightarrow> u32" where
  "Maj x y z = (x AND y) XOR (x AND z) XOR (y AND z)"

definition bsig0 :: "u32 \<Rightarrow> u32" where
  "bsig0 x = word_rotr 2 x XOR word_rotr 13 x XOR word_rotr 22 x"

definition bsig1 :: "u32 \<Rightarrow> u32" where
  "bsig1 x = word_rotr 6 x XOR word_rotr 11 x XOR word_rotr 25 x"

definition ssig0 :: "u32 \<Rightarrow> u32" where
  "ssig0 x = word_rotr 7 x XOR word_rotr 18 x XOR drop_bit 3 x"

definition ssig1 :: "u32 \<Rightarrow> u32" where
  "ssig1 x = word_rotr 17 x XOR word_rotr 19 x XOR drop_bit 10 x"

text \<open>
  The constants of the standard are the first 32 bits of the fractional parts of the
  cube roots (round constants) and square roots (initial hash value) of the first primes.
  \<open>iroot k n b 0\<close> is the integer \<open>k\<close>-th root of \<open>n\<close>, found bit by bit below
  \<open>2 ^ b\<close>.
\<close>

fun iroot :: "nat \<Rightarrow> int \<Rightarrow> nat \<Rightarrow> int \<Rightarrow> int" where
  "iroot k n 0 r = r"
| "iroot k n (Suc b) r = (let r' = r + 2 ^ b in iroot k n b (if r' ^ k \<le> n then r' else r))"

definition frac_root :: "nat \<Rightarrow> int \<Rightarrow> u32" where
  "frac_root k p = word_of_int (iroot k (p * 2 ^ (32 * k)) 35 0)"

definition first_primes :: "int list" where
  "first_primes =
     [2, 3, 5, 7, 11, 13, 17, 19, 23, 29, 31, 37, 41, 43, 47, 53,
      59, 61, 67, 71, 73, 79, 83, 89, 97, 101, 103, 107, 109, 113, 127, 131,
      137, 139, 149, 151, 157, 163, 167, 173, 179, 181, 191, 193, 197, 199, 211, 223,
      227, 229, 233, 239, 241, 251, 257, 263, 269, 271, 277, 281, 283, 293, 307, 311]"

definition K256 :: "u32 list" where
  "K256 = map (frac_root 3) first_primes"

text \<open>The eight working variables \<open>a \<dots> h\<close>, also the intermediate hash value.\<close>

type_synonym hash_state = "u32 \<times> u32 \<times> u32 \<times> u32 \<times> u32 \<times> u32 \<times> u32 \<times> u32"

definition H0 :: hash_state where
  "H0 = (frac_root 2 2, frac_root 2 3, frac_root 2 5, frac_root 2 7,
         frac_root 2 11, frac_root 2 13, frac_root 2 17, frac_root 2 19)"

text \<open>Padding: a 1 bit, zero bits up to 56 mod 64 bytes, the bit length on 64 bits.\<close>

definition be64 :: "64 word \<Rightarrow> byte list" where
  "be64 n = map (\<lambda>i. ucast (drop_bit (8 * (7 - i)) n)) [0..<8]"

definition pad :: "byte list \<Rightarrow> byte list" where
  "pad msg =
     msg @ [0x80] @ replicate ((64 - (length msg + 9) mod 64) mod 64) 0 @ be64 (8 * of_nat (length msg))"

text \<open>Big-endian 32-bit words of a byte string (whose length is a multiple of 4).\<close>

fun be_words :: "byte list \<Rightarrow> u32 list" where
  "be_words (b0 # b1 # b2 # b3 # bs) =
     (push_bit 24 (ucast b0) OR push_bit 16 (ucast b1) OR push_bit 8 (ucast b2) OR ucast b3)
       # be_words bs"
| "be_words _ = []"

text \<open>The message schedule: 16 words of the block, extended to 64.\<close>

fun schedule :: "nat \<Rightarrow> u32 list \<Rightarrow> u32 list" where
  "schedule 0 w = w"
| "schedule (Suc n) w =
     (let t = length w
      in schedule n (w @ [ssig1 (w ! (t - 2)) + w ! (t - 7) + ssig0 (w ! (t - 15)) + w ! (t - 16)]))"

fun round :: "hash_state \<Rightarrow> u32 \<times> u32 \<Rightarrow> hash_state" where
  "round (a, b, c, d, e, f, g, h) (k, w) =
     (let t1 = h + bsig1 e + Ch e f g + k + w;
          t2 = bsig0 a + Maj a b c
      in (t1 + t2, a, b, c, d + t1, e, f, g))"

fun add_state :: "hash_state \<Rightarrow> hash_state \<Rightarrow> hash_state" where
  "add_state (a, b, c, d, e, f, g, h) (a', b', c', d', e', f', g', h') =
     (a + a', b + b', c + c', d + d', e + e', f + f', g + g', h + h')"

definition compress :: "hash_state \<Rightarrow> u32 list \<Rightarrow> hash_state" where
  "compress hs block = add_state hs (foldl round hs (zip K256 (schedule 48 block)))"

fun blocks :: "nat \<Rightarrow> u32 list \<Rightarrow> u32 list list" where
  "blocks 0 ws = []"
| "blocks (Suc n) ws = take 16 ws # blocks n (drop 16 ws)"

definition sha256 :: "byte list \<Rightarrow> hash_state" where
  "sha256 msg =
     (let ws = be_words (pad msg) in foldl compress H0 (blocks (length ws div 16) ws))"

text \<open>\<^verbatim>\<open>hexdigest()\<close>: the 32 digest bytes in lowercase hexadecimal, 64 characters.\<close>

definition hex_digits :: string where
  "hex_digits = ''0123456789abcdef''"

definition hex_digit :: "u32 \<Rightarrow> char" where
  "hex_digit w = hex_digits ! unat (w AND 0xF)"

definition hex32 :: "u32 \<Rightarrow> string" where
  "hex32 w = map (\<lambda>i. hex_digit (drop_bit (4 * (7 - i)) w)) [0..<8]"

fun hexdigest :: "hash_state \<Rightarrow> string" where
  "hexdigest (a, b, c, d, e, f, g, h) =
     hex32 a @ hex32 b @ hex32 c @ hex32 d @ hex32 e @ hex32 f @ hex32 g @ hex32 h"


subsection \<open>Python strings\<close>

text \<open>
  A \<^verbatim>\<open>str\<close> is modelled as a \<open>string\<close> whose characters are the code points below
  256. \<^verbatim>\<open>str.encode()\<close> is UTF-8: one byte below 128, two bytes from 128 to 255.
  \<^verbatim>\<open>str.isalnum\<close> on one character is true for the ASCII digits and letters and,
  above 127, for the Latin-1 letters, superscript digits and vulgar fractions.
\<close>

definition encode_char :: "char \<Rightarrow> byte list" where
  "encode_char c =
     (let n = (of_char c :: byte)
      in if n < 0x80 then [n] else [0xC0 OR drop_bit 6 n, 0x80 OR (n AND 0x3F)])"

definition encode :: "string \<Rightarrow> byte list" where
  "encode s = concat (map encode_char s)"

definition isalnum :: "char \<Rightarrow> bool" where
  "isalnum c =
     (let n = (of_char c :: nat)
      in (48 \<le> n \<and> n \<le> 57) \<or> (65 \<le> n \<and> n \<le> 90) \<or> (97 \<le> n \<and> n \<le> 122)
         \<or> n = 170 \<or> n = 178 \<or> n = 179 \<or> n = 181 \<or> n = 185 \<or> n = 186
         \<or> (188 \<le> n \<and> n \<le> 190) \<or> (192 \<le> n \<and> n \<le> 214)
         \<or> (216 \<le> n \<and> n \<le> 246) \<or> (248 \<le> n \<and> n \<le> 255))"

subsection \<open>The circuit library and the IR library\<close>

text \<open>
  Of \<^verbatim>\<open>cirq\<close> the code calls \<^verbatim>\<open>circuit.all_qubits()\<close> (a frozenset),
  \<^verbatim>\<open>circuit.all_operations()\<close> (an iterator, here the list it yields) and
  \<^verbatim>\<open>cirq.to_json(circuit)\<close>, which raises on a circuit it cannot serialize.
  Of \<^verbatim>\<open>pyqir\<close> it calls \<^verbatim>\<open>Context()\<close>, \<^verbatim>\<open>Module(context, name)\<close> and reads
  \<^verbatim>\<open>module.source_filename\<close>.
\<close>

record ('c, 'q, 'o, 'x) cirq_lib =
  all_qubits :: "'c \<Rightarrow> 'q fset"
  all_operations :: "'c \<Rightarrow> 'o list"
  to_json :: "'c \<Rightarrow> 'x + string"

record ('ctx, 'm) pyqir_lib =
  Context :: "'ctx"
  Module :: "'ctx \<Rightarrow> string \<Rightarrow> 'm"
  source_filename :: "'m \<Rightarrow> string"

section \<open>\<^verbatim>\<open>generate_module_id\<close>\<close>

definition generate_module_id :: "('c, 'q, 'o, 'x) cirq_lib \<Rightarrow> 'c \<Rightarrow> 'x exn + string" where
  "generate_module_id cirq circuit =
     (case to_json cirq circuit of
        Inl x \<Rightarrow> Inl (Raised x)
      | Inr serialized_circuit \<Rightarrow>
          (let hash_object = sha256 (encode serialized_circuit);
               hash_hex = hexdigest hash_object;
               alphanumeric_hash = filter isalnum hash_hex;
               truncated_hash = take 7 alphanumeric_hash
           in Inr (''circuit-'' @ truncated_hash)))"

subsection \<open>The serializer as an outside call\<close>

text \<open>
  Above, \<^verbatim>\<open>cirq.to_json\<close> is a function of the circuit. To speak about repeated calls
  and side effects, the same six statements are written once more with the serializer as
  a call made in an outside world \<open>'w\<close> (the interpreter's state, with the circuit
  objects in it): the call reads the world, may change it, and may answer differently from
  one call to the next. The statements after it are \<^verbatim>\<open>hashlib\<close> and \<^verbatim>\<open>str\<close>
  operations on values.
\<close>

definition generate_module_id_io ::
  "('c \<Rightarrow> 'w \<Rightarrow> ('x + string) \<times> 'w) \<Rightarrow> 'c \<Rightarrow> 'w \<Rightarrow> ('x exn + string) \<times> 'w" where
  "generate_module_id_io to_json_call circuit w =
     (case to_json_call circuit w of
        (Inl x, w') \<Rightarrow> (Inl (Raised x), w')
      | (Inr serialized_circuit, w') \<Rightarrow>
          (let hash_object = sha256 (encode serialized_circuit);
               hash_hex = hexdigest hash_object;
               alphanumeric_hash = filter isalnum hash_hex;
               truncated_hash = take 7 alphanumeric_hash
           in (Inr (''circuit-'' @ truncated_hash), w')))"

section \<open>Circuit elements\<close>

text \<open>
  An element object is its class together with its instance attributes. A
  \<^verbatim>\<open>_Register\<close> object has the attribute \<^verbatim>\<open>_register\<close> or not (\<open>None\<close>: the
  attribute is not set, and reading it raises \<^verbatim>\<open>AttributeError\<close>); an
  \<^verbatim>\<open>_Operation\<close> object has \<^verbatim>\<open>_operation\<close>.
\<close>

datatype ('q, 'o) CircuitElement = Register "'q fset option" | Operation 'o

text \<open>
  \<^verbatim>\<open>_Register.__init__\<close> is the single statement \<^verbatim>\<open>self._register: register\<close>, an
  annotation without a value: it assigns nothing, so the new object has no attribute
  \<^verbatim>\<open>_register\<close>. \<^verbatim>\<open>_Operation.__init__\<close> is the assignment
  \<^verbatim>\<open>self._operation = operation\<close>.
\<close>

definition Register_init :: "'q fset \<Rightarrow> ('q, 'o) CircuitElement" where
  "Register_init register = Register None"

definition Operation_init :: "'o \<Rightarrow> ('q, 'o) CircuitElement" where
  "Operation_init operation = Operation operation"

definition from_element_list :: "('a \<Rightarrow> ('q, 'o) CircuitElement) \<Rightarrow> 'a list \<Rightarrow> ('q, 'o) CircuitElement list" where
  "from_element_list cls elems = map cls elems"

section \<open>\<^verbatim>\<open>CirqModule\<close>\<close>

record ('q, 'o, 'm) CirqModule =
  name :: string
  module :: 'm
  num_qubits :: nat
  elements :: "('q, 'o) CircuitElement list"

definition from_circuit ::
  "('c, 'q, 'o, 'x) cirq_lib \<Rightarrow> ('ctx, 'm) pyqir_lib \<Rightarrow> 'c \<Rightarrow> 'm option
     \<Rightarrow> 'x exn + ('q, 'o, 'm) CirqModule" where
  "from_circuit cirq pyqir circuit module_arg =
     (let elements0 = [] @ [Register_init (all_qubits cirq circuit)];
          elements1 = foldl (\<lambda>es operation. es @ [Operation_init operation])
                        elements0 (all_operations cirq circuit)
      in case (case module_arg of
                 None \<Rightarrow>
                   (case generate_module_id cirq circuit of
                      Inl e \<Rightarrow> Inl e
                    | Inr module_id \<Rightarrow> Inr (Module pyqir (Context pyqir) module_id))
               | Some handle \<Rightarrow> Inr handle) of
           Inl e \<Rightarrow> Inl e
         | Inr m \<Rightarrow>
             Inr \<lparr>name = source_filename pyqir m, module = m,
                  num_qubits = fcard (all_qubits cirq circuit), elements = elements1\<rparr>)"

subsection \<open>Visitors and the calls made on them\<close>

text \<open>
  A visitor is any object with the five methods. A method runs on the visitor's own
  state \<open>'s\<close> and either returns (\<open>None\<close>) or raises (\<open>Some x\<close>); either way it may
  have changed the state. The value a method returns is not used by the code.

  To speak about the order of the calls, every call on the visitor is written to a log
  together with its outcome.
\<close>

datatype ('q, 'o, 'm) call =
    VisitCirqModule "('q, 'o, 'm) CirqModule"
  | VisitRegister "'q fset"
  | VisitOperation 'o
  | RecordOutput "('q, 'o, 'm) CirqModule"
  | Finalize

record ('q, 'o, 'm, 'x, 's) visitor =
  visit_cirq_module :: "('q, 'o, 'm) CirqModule \<Rightarrow> 's \<Rightarrow> 'x option \<times> 's"
  visit_register :: "'q fset \<Rightarrow> 's \<Rightarrow> 'x option \<times> 's"
  visit_operation :: "'o \<Rightarrow> 's \<Rightarrow> 'x option \<times> 's"
  record_output :: "('q, 'o, 'm) CirqModule \<Rightarrow> 's \<Rightarrow> 'x option \<times> 's"
  finalize :: "'s \<Rightarrow> 'x option \<times> 's"

type_synonym ('q, 'o, 'm, 'x) log = "(('q, 'o, 'm) call \<times> 'x option) list"

type_synonym ('q, 'o, 'm, 'x, 's) stmt =
  "('q, 'o, 'm, 'x) log \<times> 's \<Rightarrow> ('x exn + unit) \<times> ('q, 'o, 'm, 'x) log \<times> 's"

text \<open>One call of a visitor method.\<close>

definition invoke :: "('q, 'o, 'm) call \<Rightarrow> ('s \<Rightarrow> 'x option \<times> 's) \<Rightarrow> ('q, 'o, 'm, 'x, 's) stmt" where
  "invoke c method st =
     (case st of (log, s) \<Rightarrow>
        (case method s of
           (None, s') \<Rightarrow> (Inr (), log @ [(c, None)], s')
         | (Some x, s') \<Rightarrow> (Inl (Raised x), log @ [(c, Some x)], s')))"

text \<open>Two statements in sequence: an exception in the first one skips the second.\<close>

definition seq :: "('q, 'o, 'm, 'x, 's) stmt \<Rightarrow> ('q, 'o, 'm, 'x, 's) stmt \<Rightarrow> ('q, 'o, 'm, 'x, 's) stmt" where
  "seq p q st = (case p st of (Inl e, st') \<Rightarrow> (Inl e, st') | (Inr u, st') \<Rightarrow> q st')"

subsection \<open>\<^verbatim>\<open>accept\<close>\<close>

fun element_accept ::
  "('q, 'o) CircuitElement \<Rightarrow> ('q, 'o, 'm, 'x, 's) visitor \<Rightarrow> ('q, 'o, 'm, 'x, 's) stmt" where
  "element_accept (Register r) v st =
     (case r of
        None \<Rightarrow> (Inl (AttributeError ''_register''), st)
      | Some register \<Rightarrow> invoke (VisitRegister register) (visit_register v register) st)"
| "element_accept (Operation operation) v st =
     invoke (VisitOperation operation) (visit_operation v operation) st"

fun accept_elements ::
  "('q, 'o) CircuitElement list \<Rightarrow> ('q, 'o, 'm, 'x, 's) visitor \<Rightarrow> ('q, 'o, 'm, 'x, 's) stmt" where
  "accept_elements [] v st = (Inr (), st)"
| "accept_elements (element # rest) v st =
     seq (element_accept element v) (accept_elements rest v) st"

definition accept ::
  "('q, 'o, 'm) CirqModule \<Rightarrow> ('q, 'o, 'm, 'x, 's) visitor \<Rightarrow> ('q, 'o, 'm, 'x, 's) stmt" where
  "accept self v =
     seq (invoke (VisitCirqModule self) (visit_cirq_module v self))
       (seq (accept_elements (elements self) v)
          (seq (invoke (RecordOutput self) (record_output v self))
             (invoke Finalize (finalize v))))"


subsection \<open>Logs\<close>

text \<open>
  A log is clean when every call in it returned. The outcome of a run is
  \<open>aborted_at_raise\<close> when either nothing raised in the visitor and the log is clean, or
  the run ended with the exception of the last call of the log, the only one that raised.
\<close>

definition clean :: "('q, 'o, 'm, 'x) log \<Rightarrow> bool" where
  "clean log = list_all (\<lambda>ev. snd ev = None) log"

fun aborted_at_raise :: "('x exn + unit) \<times> ('q, 'o, 'm, 'x) log \<times> 's \<Rightarrow> bool" where
  "aborted_at_raise (Inl (Raised x), log, s) = (\<exists>l c. log = l @ [(c, Some x)] \<and> clean l)"
| "aborted_at_raise (r, log, s) = clean log"

section \<open>Concrete inputs\<close>

text \<open>
  Stand-ins for the two libraries, to run the definitions above on concrete circuits.
  An operation is a gate name with the names of its qubits, a circuit is the list of its
  operations, and its serialized form lists them in order; a gate named \<open>custom\<close>
  cannot be serialized. An IR module is represented by the name stored in it.
\<close>

type_synonym demo_op = "string \<times> string list"

definition demo_json :: "demo_op list \<Rightarrow> string" where
  "demo_json c =
     concat (map (\<lambda>op. fst op @ ''('' @ concat (map (\<lambda>q. q @ '','') (snd op)) @ '')'') c)"

definition demo_cirq :: "(demo_op list, string, demo_op, string) cirq_lib" where
  "demo_cirq =
     \<lparr>all_qubits = (\<lambda>c. fset_of_list (concat (map snd c))),
      all_operations = (\<lambda>c. c),
      to_json = (\<lambda>c. if list_ex (\<lambda>op. fst op = ''custom'') c
                       then Inl ''cannot serialize'' else Inr (demo_json c))\<rparr>"

definition demo_pyqir :: "(unit, string) pyqir_lib" where
  "demo_pyqir = \<lparr>Context = (), Module = (\<lambda>ctx nm. nm), source_filename = (\<lambda>m. m)\<rparr>"

text \<open>A Bell circuit, and a circuit with a gate that cannot be serialized.\<close>

definition bell :: "demo_op list" where
  "bell = [(''H'', [''q0'']), (''CNOT'', [''q0'', ''q1''])]"

definition unserializable :: "demo_op list" where
  "unserializable = [(''custom'', [''q0''])]"

text \<open>
  An outside world for the serializer: circuit objects by reference, and the number of
  serializer calls made so far. The stand-in serializer reads the object behind the
  reference and counts the call. In \<open>two_bells\<close> every reference but 3 holds a Bell
  circuit of its own.
\<close>

record demo_world =
  heap :: "nat \<Rightarrow> demo_op list"
  calls :: nat

definition demo_to_json_call :: "nat \<Rightarrow> demo_world \<Rightarrow> (string + string) \<times> demo_world" where
  "demo_to_json_call ref w = (to_json demo_cirq (heap w ref), w\<lparr>calls := Suc (calls w)\<rparr>)"

definition two_bells :: demo_world where
  "two_bells = \<lparr>heap = (\<lambda>ref. if ref = 3 then unserializable else bell), calls = 0\<rparr>"

text \<open>
  A visitor that counts the calls it receives and never raises, and one whose
  \<^verbatim>\<open>visit_operation\<close> raises on a \<open>CNOT\<close>.
\<close>

definition counting_visitor :: "(string, demo_op, string, string, nat) visitor" where
  "counting_visitor =
     \<lparr>visit_cirq_module = (\<lambda>m s. (None, Suc s)),
      visit_register = (\<lambda>r s. (None, Suc s)),
      visit_operation = (\<lambda>op s. (None, Suc s)),
      record_output = (\<lambda>m s. (None, Suc s)),
      finalize = (\<lambda>s. (None, Suc s))\<rparr>"

definition failing_visitor :: "(string, demo_op, string, string, nat) visitor" where
  "failing_visitor =
     counting_visitor
       \<lparr>visit_operation :=
          (\<lambda>op s. if fst op = ''CNOT'' then (Some ''unsupported gate'', s) else (None, Suc s))\<rparr>"

text \<open>The module that \<^verbatim>\<open>CirqModule.from_circuit(bell, module=handle)\<close> returns for a handle
  named \<open>bell\<close>, and a module built with the constructor from three operation elements.\<close>

definition bell_module :: "(string, demo_op, string) CirqModule" where
  "bell_module =
     \<lparr>name = ''bell'', module = ''bell'', num_qubits = 2,
      elements = [Register None, Operation (''H'', [''q0'']), Operation (''CNOT'', [''q0'', ''q1''])]\<rparr>"

definition operations_module :: "(string, demo_op, string) CirqModule" where
  "operations_module =
     \<lparr>name = ''ops'', module = ''ops'', num_qubits = 2,
      elements = [Operation_init (''H'', [''q0'']), Operation_init (''CNOT'', [''q0'', ''q1'']),
                  Operation_init (''H'', [''q1''])]\<rparr>"


section \<open>Properties of \<^verbatim>\<open>generate_module_id\<close>\<close>

subsection \<open>The hash model on a standard test vector\<close>

lemma sha256_abc:
  "hexdigest (sha256 (encode ''abc''))
     = ''ba7816bf8f01cfea414140de5dae2223b00361a396177a9cb410ff61f20015ad''"
  by code_simp

subsection \<open>The hex digest\<close>

lemma hex_digit_in: "hex_digit w \<in> set hex_digits"
proof -
  have "unat (w AND 0xF) \<le> unat (0xF :: u32)"
    by (rule word_and_le1 [THEN word_le_nat_alt [THEN iffD1]])
  then have "unat (w AND 0xF) < length hex_digits"
    by (simp add: hex_digits_def)
  then show ?thesis
    unfolding hex_digit_def by (rule nth_mem)
qed

lemma length_hex32: "length (hex32 w) = 8"
  by (simp add: hex32_def)

lemma set_hex32: "set (hex32 w) \<subseteq> set hex_digits"
  by (auto simp: hex32_def hex_digit_in)

lemma length_hexdigest: "length (hexdigest hs) = 64"
  by (cases hs rule: hexdigest.cases) (simp add: length_hex32)

lemma set_hexdigest: "set (hexdigest hs) \<subseteq> set hex_digits"
  using set_hex32 by (cases hs rule: hexdigest.cases) auto

lemma isalnum_hex_digits: "c \<in> set hex_digits \<Longrightarrow> isalnum c"
  by (auto simp: hex_digits_def isalnum_def)

lemma filter_isalnum_hexdigest: "filter isalnum (hexdigest hs) = hexdigest hs"
  using set_hexdigest [of hs] by (auto simp: filter_id_conv intro: isalnum_hex_digits)

lemma card_hex_digits: "card (set hex_digits) = 16"
proof -
  have "distinct hex_digits" by (simp add: hex_digits_def)
  then have "card (set hex_digits) = length hex_digits" by (rule distinct_card)
  then show ?thesis by (simp add: hex_digits_def)
qed

lemma truncated_hash_props:
  "length (take 7 (hexdigest hs)) = 7" "set (take 7 (hexdigest hs)) \<subseteq> set hex_digits"
proof -
  show "length (take 7 (hexdigest hs)) = 7" by (simp add: length_hexdigest)
  have "set (take 7 (hexdigest hs)) \<subseteq> set (hexdigest hs)" by (rule set_take_subset)
  then show "set (take 7 (hexdigest hs)) \<subseteq> set hex_digits" using set_hexdigest by blast
qed

subsection \<open>The two outcomes of \<^verbatim>\<open>generate_module_id\<close>\<close>

lemma generate_module_id_Inr:
  "to_json cirq c = Inr s \<Longrightarrow>
   generate_module_id cirq c = Inr (''circuit-'' @ take 7 (hexdigest (sha256 (encode s))))"
  by (simp add: generate_module_id_def filter_isalnum_hexdigest)

lemma generate_module_id_Inl:
  "to_json cirq c = Inl x \<Longrightarrow> generate_module_id cirq c = Inl (Raised x)"
  by (simp add: generate_module_id_def)

lemma to_json_bell: "to_json demo_cirq bell = Inr ''H(q0,)CNOT(q0,q1,)''"
  by (simp add: demo_cirq_def bell_def demo_json_def)

lemma generate_module_id_bell: "generate_module_id demo_cirq bell = Inr ''circuit-412ecf2''"
  by code_simp

text \<open>
  C4. For every circuit whose serialization succeeds, \<^verbatim>\<open>generate_module_id\<close> returns the
  string \<open>circuit-\<close> followed by exactly 7 alphanumeric characters; the length of the
  result is \<open>len("circuit-") + 7 = 15\<close>.
\<close>

theorem generate_module_id_format:
  assumes "to_json cirq c = Inr s"
  shows "\<exists>suffix. generate_module_id cirq c = Inr (''circuit-'' @ suffix)
           \<and> length suffix = 7 \<and> list_all isalnum suffix
           \<and> length (''circuit-'' @ suffix) = length ''circuit-'' + 7
           \<and> length (''circuit-'' @ suffix) = 15"
proof -
  let ?suffix = "take 7 (hexdigest (sha256 (encode s)))"
  have "generate_module_id cirq c = Inr (''circuit-'' @ ?suffix)"
    using assms by (rule generate_module_id_Inr)
  moreover have "length ?suffix = 7" by (rule truncated_hash_props)
  moreover have "list_all isalnum ?suffix"
    using truncated_hash_props(2) [of "sha256 (encode s)"] isalnum_hex_digits
    by (auto simp: list_all_iff)
  ultimately show ?thesis by simp
qed

theorem generate_module_id_format_witness:
  "to_json demo_cirq bell = Inr ''H(q0,)CNOT(q0,q1,)''
   \<and> generate_module_id demo_cirq bell = Inr (''circuit-'' @ ''412ecf2'')
   \<and> length ''412ecf2'' = 7 \<and> list_all isalnum ''412ecf2''
   \<and> length (''circuit-'' @ ''412ecf2'') = 15"
proof -
  have h: "to_json demo_cirq bell = Inr ''H(q0,)CNOT(q0,q1,)''"
    by (rule to_json_bell)
  from generate_module_id_format [OF h] generate_module_id_bell h show ?thesis
    by auto
qed

lemma generate_module_id_io_result:
  "fst (generate_module_id_io tj c w) =
     (case fst (tj c w) of
        Inl x \<Rightarrow> Inl (Raised x)
      | Inr t \<Rightarrow> Inr (''circuit-'' @ take 7 (hexdigest (sha256 (encode t)))))"
  by (cases "tj c w")
    (simp add: generate_module_id_io_def filter_isalnum_hexdigest split: sum.splits)

lemma generate_module_id_io_world:
  "snd (generate_module_id_io tj c w) = snd (tj c w)"
  by (cases "tj c w") (simp add: generate_module_id_io_def split: sum.splits)

text \<open>With a serializer that is a function and leaves the world alone, the two models of
  \<^verbatim>\<open>generate_module_id\<close> agree.\<close>

lemma generate_module_id_io_pure:
  "generate_module_id_io (\<lambda>c w. (to_json cirq c, w)) c w = (generate_module_id cirq c, w)"
  by (simp add: generate_module_id_io_def generate_module_id_def split: sum.splits)

lemma bell_id_text:
  "''circuit-'' @ take 7 (hexdigest (sha256 (encode ''H(q0,)CNOT(q0,q1,)''))) = ''circuit-412ecf2''"
  using generate_module_id_Inr [OF to_json_bell] generate_module_id_bell by simp

text \<open>
  C5. \<^verbatim>\<open>generate_module_id\<close> is deterministic and pure, the serializer being a call
  into an outside world that may change under it:
  \<^item> two calls, on any circuits, in any worlds and with any serializers, whose serialized
    forms are identical return equal results;
  \<^item> two calls in a row on one circuit return equal results when the serializer answers
    the second call as it answered the first;
  \<^item> a call leaves the world as its single serializer call left it: it has no effect of
    its own;
  \<^item> the ID is this function of the serialized form \<open>t\<close> alone: \<open>circuit-\<close> followed by
    the first 7 characters of the hex digest of the encoded \<open>t\<close>.
\<close>

theorem generate_module_id_pure_deterministic:
  "(fst (tja ca wa) = fst (tjb cb wb) \<longrightarrow>
      fst (generate_module_id_io tja ca wa) = fst (generate_module_id_io tjb cb wb))
   \<and> (fst (tj c (snd (tj c w))) = fst (tj c w) \<longrightarrow>
        fst (generate_module_id_io tj c (snd (generate_module_id_io tj c w)))
          = fst (generate_module_id_io tj c w))
   \<and> snd (generate_module_id_io tj c w) = snd (tj c w)
   \<and> (fst (tj c w) = Inr t \<longrightarrow>
        fst (generate_module_id_io tj c w)
          = Inr (''circuit-'' @ take 7 (hexdigest (sha256 (encode t)))))"
  by (simp add: generate_module_id_io_result generate_module_id_io_world)

text \<open>
  In \<open>two_bells\<close>, references 1 and 2 are two circuit objects with the same serialized
  form: they get the same ID, in worlds that differ; a second call on reference 1, in the
  world the first call left, returns the same ID; the first call changed the world only
  by its serializer call.
\<close>

theorem generate_module_id_pure_deterministic_witness:
  "(1::nat) \<noteq> 2
   \<and> fst (demo_to_json_call 1 two_bells) = Inr ''H(q0,)CNOT(q0,q1,)''
   \<and> fst (demo_to_json_call 2 (two_bells\<lparr>calls := 7\<rparr>)) = fst (demo_to_json_call 1 two_bells)
   \<and> fst (demo_to_json_call 1 (snd (demo_to_json_call 1 two_bells)))
       = fst (demo_to_json_call 1 two_bells)
   \<and> fst (generate_module_id_io demo_to_json_call 1 two_bells) = Inr ''circuit-412ecf2''
   \<and> fst (generate_module_id_io demo_to_json_call 2 (two_bells\<lparr>calls := 7\<rparr>))
       = Inr ''circuit-412ecf2''
   \<and> fst (generate_module_id_io demo_to_json_call 1
             (snd (generate_module_id_io demo_to_json_call 1 two_bells)))
       = Inr ''circuit-412ecf2''
   \<and> snd (generate_module_id_io demo_to_json_call 1 two_bells) = two_bells\<lparr>calls := 1\<rparr>"
proof -
  have a: "fst (demo_to_json_call 1 two_bells) = Inr ''H(q0,)CNOT(q0,q1,)''"
    by (simp add: demo_to_json_call_def two_bells_def to_json_bell)
  have b: "fst (demo_to_json_call 2 (two_bells\<lparr>calls := 7\<rparr>)) = fst (demo_to_json_call 1 two_bells)"
    by (simp add: demo_to_json_call_def two_bells_def)
  have c: "fst (demo_to_json_call 1 (snd (demo_to_json_call 1 two_bells)))
             = fst (demo_to_json_call 1 two_bells)"
    by (simp add: demo_to_json_call_def two_bells_def)
  have d: "snd (demo_to_json_call 1 two_bells) = two_bells\<lparr>calls := 1\<rparr>"
    by (simp add: demo_to_json_call_def two_bells_def)
  note T = generate_module_id_pure_deterministic
         [where tja = demo_to_json_call and ca = 2 and wa = "two_bells\<lparr>calls := 7\<rparr>"
            and tjb = demo_to_json_call and cb = 1 and wb = two_bells
            and tj = demo_to_json_call and c = 1 and w = two_bells
            and t = "''H(q0,)CNOT(q0,q1,)''"]
  have first: "fst (generate_module_id_io demo_to_json_call 1 two_bells) = Inr ''circuit-412ecf2''"
    using T [THEN conjunct2, THEN conjunct2, THEN conjunct2, THEN mp, OF a]
    by (simp only: bell_id_text)
  have other: "fst (generate_module_id_io demo_to_json_call 2 (two_bells\<lparr>calls := 7\<rparr>))
                 = fst (generate_module_id_io demo_to_json_call 1 two_bells)"
    by (rule T [THEN conjunct1, THEN mp, OF b])
  have again: "fst (generate_module_id_io demo_to_json_call 1
                      (snd (generate_module_id_io demo_to_json_call 1 two_bells)))
                 = fst (generate_module_id_io demo_to_json_call 1 two_bells)"
    by (rule T [THEN conjunct2, THEN conjunct1, THEN mp, OF c])
  have world: "snd (generate_module_id_io demo_to_json_call 1 two_bells) = two_bells\<lparr>calls := 1\<rparr>"
    using T [THEN conjunct2, THEN conjunct2, THEN conjunct1] by (simp only: d)
  have "(1::nat) \<noteq> 2" by simp
  with a b c first other again world show ?thesis
    by (simp only: simp_thms)
qed

text \<open>
  C10. The alphanumeric filter is the identity on a hex digest, so the 7 characters after
  \<open>circuit-\<close> are lowercase hexadecimal digits: every ID lies in a set of \<open>16 ^ 7\<close>
  strings.
\<close>

theorem module_id_hex_suffix:
  "filter isalnum (hexdigest hs) = hexdigest hs
   \<and> (generate_module_id cirq c = Inr module_id \<longrightarrow>
        module_id \<in> (\<lambda>w. ''circuit-'' @ w) ` {w. set w \<subseteq> set hex_digits \<and> length w = 7})
   \<and> card ((\<lambda>w. ''circuit-'' @ w) ` {w. set w \<subseteq> set hex_digits \<and> length w = 7}) = 16 ^ 7"
proof (intro conjI impI)
  show "filter isalnum (hexdigest hs) = hexdigest hs" by (rule filter_isalnum_hexdigest)
next
  assume a: "generate_module_id cirq c = Inr module_id"
  then obtain s where s: "to_json cirq c = Inr s"
    by (cases "to_json cirq c") (simp_all add: generate_module_id_def)
  from a generate_module_id_Inr [OF s]
  have "module_id = ''circuit-'' @ take 7 (hexdigest (sha256 (encode s)))" by simp
  then show "module_id \<in> (\<lambda>w. ''circuit-'' @ w) ` {w. set w \<subseteq> set hex_digits \<and> length w = 7}"
    using truncated_hash_props [of "sha256 (encode s)"] by blast
next
  have "inj_on (\<lambda>w. ''circuit-'' @ w) {w. set w \<subseteq> set hex_digits \<and> length w = 7}"
    by (rule inj_onI) simp
  then have "card ((\<lambda>w. ''circuit-'' @ w) ` {w. set w \<subseteq> set hex_digits \<and> length w = 7})
               = card {w. set w \<subseteq> set hex_digits \<and> length w = 7}"
    by (rule card_image)
  also have "\<dots> = card (set hex_digits) ^ 7"
    by (rule card_lists_length_eq) simp
  finally show "card ((\<lambda>w. ''circuit-'' @ w) ` {w. set w \<subseteq> set hex_digits \<and> length w = 7}) = 16 ^ 7"
    by (simp only: card_hex_digits)
qed

theorem module_id_hex_suffix_witness:
  "generate_module_id demo_cirq bell = Inr ''circuit-412ecf2''
   \<and> ''circuit-412ecf2'' \<in> (\<lambda>w. ''circuit-'' @ w) ` {w. set w \<subseteq> set hex_digits \<and> length w = 7}"
  using module_id_hex_suffix [of H0 demo_cirq bell "''circuit-412ecf2''"] generate_module_id_bell
  by simp

section \<open>Properties of \<^verbatim>\<open>CirqModule.from_circuit\<close>\<close>

lemma append_loop: "foldl (\<lambda>es x. es @ [f x]) acc xs = acc @ map f xs"
  by (induction xs arbitrary: acc) simp_all

lemma from_circuit_handle:
  "from_circuit cirq pyqir c (Some h) =
     Inr \<lparr>name = source_filename pyqir h, module = h,
          num_qubits = fcard (all_qubits cirq c),
          elements = Register None # map Operation (all_operations cirq c)\<rparr>"
  by (simp add: from_circuit_def append_loop Register_init_def Operation_init_def [abs_def])

lemma from_circuit_fresh:
  "generate_module_id cirq c = Inr module_id \<Longrightarrow>
   from_circuit cirq pyqir c None =
     Inr \<lparr>name = source_filename pyqir (Module pyqir (Context pyqir) module_id),
          module = Module pyqir (Context pyqir) module_id,
          num_qubits = fcard (all_qubits cirq c),
          elements = Register None # map Operation (all_operations cirq c)\<rparr>"
  by (simp add: from_circuit_def append_loop Register_init_def Operation_init_def [abs_def])

lemma from_circuit_fresh_fails:
  "generate_module_id cirq c = Inl e \<Longrightarrow> from_circuit cirq pyqir c None = Inl e"
  by (simp add: from_circuit_def)

lemma from_circuit_elements:
  assumes "from_circuit cirq pyqir c module_arg = Inr m"
  shows "elements m = Register None # map Operation (all_operations cirq c)"
  using assms
  by (auto simp: from_circuit_def append_loop Register_init_def Operation_init_def [abs_def]
      split: option.splits sum.splits)

lemma from_circuit_bell: "from_circuit demo_cirq demo_pyqir bell (Some ''bell'') = Inr bell_module"
  by (simp add: from_circuit_handle bell_module_def demo_cirq_def demo_pyqir_def bell_def
      fcard_finsert_if)

text \<open>
  C2. The claim: the element sequence of \<^verbatim>\<open>from_circuit(C)\<close> has length
  \<open>1 + count(C.all_operations())\<close>, element 0 is a Register element wrapping exactly
  \<open>C.all_qubits()\<close>, and elements 1..n wrap the operations in order. On the Bell circuit
  the length and the operation elements are as claimed, but element 0 is a Register
  object without the attribute \<^verbatim>\<open>_register\<close>: it does not hold the qubit set.
\<close>

theorem from_circuit_bell_elements:
  "\<exists>m. from_circuit demo_cirq demo_pyqir bell None = Inr m
      \<and> length (elements m) = 1 + length (all_operations demo_cirq bell)
      \<and> elements m ! 0 = Register None
      \<and> elements m ! 0 \<noteq> Register (Some (all_qubits demo_cirq bell))
      \<and> drop 1 (elements m) = map Operation (all_operations demo_cirq bell)"
proof -
  from generate_module_id_bell
  obtain m where m: "from_circuit demo_cirq demo_pyqir bell None = Inr m"
    by (simp add: from_circuit_def)
  from from_circuit_elements [OF m] m show ?thesis by simp
qed

text \<open>
  C6. With a handle supplied, the module's name is the name stored in the handle
  (\<^verbatim>\<open>source_filename\<close>); without one, it is the name stored in the handle freshly created
  with the generated module ID.
\<close>

theorem from_circuit_name:
  "(\<exists>m. from_circuit cirq pyqir c (Some h) = Inr m \<and> name m = source_filename pyqir h)
   \<and> (generate_module_id cirq c = Inr module_id \<longrightarrow>
        (\<exists>m. from_circuit cirq pyqir c None = Inr m
           \<and> name m = source_filename pyqir (Module pyqir (Context pyqir) module_id)))"
  by (simp add: from_circuit_handle from_circuit_fresh)

theorem from_circuit_name_witness:
  "generate_module_id demo_cirq bell = Inr ''circuit-412ecf2''
   \<and> (\<exists>m. from_circuit demo_cirq demo_pyqir bell None = Inr m \<and> name m = ''circuit-412ecf2'')
   \<and> (\<exists>m. from_circuit demo_cirq demo_pyqir bell (Some ''bell'') = Inr m \<and> name m = ''bell''
          \<and> name m \<noteq> ''circuit-412ecf2'')"
  using from_circuit_name [of demo_cirq demo_pyqir bell "''bell''" "''circuit-412ecf2''"]
    generate_module_id_bell
  by (auto simp: demo_pyqir_def)

text \<open>
  C7, as the code has it. With a handle supplied, \<^verbatim>\<open>from_circuit\<close> returns a module
  whatever \<^verbatim>\<open>cirq.to_json\<close> does (the module ID is not computed: the result is the same
  under any other serializer); a serialization failure is propagated only when no handle
  is supplied.
\<close>

theorem from_circuit_serialization_failure:
  "(\<exists>m. from_circuit cirq pyqir c (Some h) = Inr m)
   \<and> from_circuit (cirq\<lparr>to_json := f\<rparr>) pyqir c (Some h) = from_circuit cirq pyqir c (Some h)
   \<and> (to_json cirq c = Inl x \<longrightarrow> from_circuit cirq pyqir c None = Inl (Raised x))"
  by (simp add: from_circuit_handle from_circuit_fresh_fails generate_module_id_Inl)

theorem from_circuit_serialization_failure_witness:
  "to_json demo_cirq unserializable = Inl ''cannot serialize''
   \<and> from_circuit demo_cirq demo_pyqir unserializable None = Inl (Raised ''cannot serialize'')"
proof -
  have h: "to_json demo_cirq unserializable = Inl ''cannot serialize''"
    by (simp add: demo_cirq_def unserializable_def)
  with from_circuit_serialization_failure
         [of demo_cirq demo_pyqir unserializable _ _ "''cannot serialize''"]
  show ?thesis by simp
qed

text \<open>
  C7, as claimed, fails: the circuit with the \<open>custom\<close> gate cannot be serialized, its
  module ID cannot be generated, and \<^verbatim>\<open>from_circuit\<close> with a handle returns a module.
\<close>

theorem from_circuit_handle_unserializable:
  "to_json demo_cirq unserializable = Inl ''cannot serialize''
   \<and> generate_module_id demo_cirq unserializable = Inl (Raised ''cannot serialize'')
   \<and> from_circuit demo_cirq demo_pyqir unserializable (Some ''handle'')
       = Inr \<lparr>name = ''handle'', module = ''handle'', num_qubits = 1,
              elements = [Register None, Operation (''custom'', [''q0''])]\<rparr>"
  by (simp add: from_circuit_handle generate_module_id_def demo_cirq_def demo_pyqir_def
      unserializable_def fcard_finsert_if)

text \<open>
  C9. For a circuit that can be serialized, \<^verbatim>\<open>from_circuit(C)\<close> returns a module whose
  \<^verbatim>\<open>num_qubits\<close> is the cardinality of \<^verbatim>\<open>C.all_qubits()\<close>.
\<close>

theorem from_circuit_num_qubits:
  assumes "to_json cirq c = Inr s"
  shows "\<exists>m. from_circuit cirq pyqir c None = Inr m \<and> num_qubits m = fcard (all_qubits cirq c)"
  using generate_module_id_Inr [OF assms] by (simp add: from_circuit_fresh)

theorem from_circuit_num_qubits_witness:
  "to_json demo_cirq bell = Inr ''H(q0,)CNOT(q0,q1,)''
   \<and> all_qubits demo_cirq bell = {|''q0'', ''q1''|}
   \<and> (\<exists>m. from_circuit demo_cirq demo_pyqir bell None = Inr m \<and> num_qubits m = 2)"
proof -
  have q: "all_qubits demo_cirq bell = {|''q0'', ''q1''|}"
    by (simp add: demo_cirq_def bell_def)
  have "fcard (all_qubits demo_cirq bell) = 2"
    by (simp add: q fcard_finsert_if)
  with from_circuit_num_qubits [OF to_json_bell, of demo_pyqir] to_json_bell q
  show ?thesis by simp
qed

section \<open>Properties of \<^verbatim>\<open>accept\<close>\<close>

subsection \<open>The register element\<close>

lemma Register_init_accept:
  "element_accept (Register_init r) v st = (Inl (AttributeError ''_register''), st)"
  by (simp add: Register_init_def)

lemma accept_unset_register:
  assumes "elements m = Register None # es" and "visit_cirq_module v m s = (None, s')"
  shows "accept m v (log, s)
           = (Inl (AttributeError ''_register''), log @ [(VisitCirqModule m, None)], s')"
  using assms by (simp add: accept_def seq_def invoke_def)

lemma accept_from_circuit:
  assumes "from_circuit cirq pyqir c module_arg = Inr m"
    and "visit_cirq_module v m s = (None, s')"
  shows "accept m v (log, s)
           = (Inl (AttributeError ''_register''), log @ [(VisitCirqModule m, None)], s')"
  using from_circuit_elements [OF assms(1)] assms(2) by (rule accept_unset_register)

text \<open>
  C3. The claim: \<^verbatim>\<open>accept(v)\<close> on a Register element built from a qubit set \<open>r\<close> calls
  \<^verbatim>\<open>v.visit_register(r)\<close> and raises nothing itself. On the qubit set \<open>{q0, q1}\<close> and a
  visitor that never raises, the code raises \<^verbatim>\<open>AttributeError\<close> and makes no call on the
  visitor.
\<close>

theorem Register_accept_bell_qubits:
  "element_accept (Register_init {|''q0'', ''q1''|}) counting_visitor ([], 0)
     = (Inl (AttributeError ''_register''), [], 0)"
  by (rule Register_init_accept)

text \<open>
  C1. The claim: \<^verbatim>\<open>accept\<close> calls \<^verbatim>\<open>visit_cirq_module\<close>, \<^verbatim>\<open>visit_register\<close>,
  \<^verbatim>\<open>visit_operation\<close> once per operation, \<^verbatim>\<open>record_output\<close> and \<^verbatim>\<open>finalize\<close>, in
  this order. On the module built from the Bell circuit and a visitor that never raises,
  the code calls \<^verbatim>\<open>visit_cirq_module\<close> and then raises \<^verbatim>\<open>AttributeError\<close> in the
  register element: no other call is made.
\<close>

theorem accept_bell_module:
  "from_circuit demo_cirq demo_pyqir bell (Some ''bell'') = Inr bell_module
   \<and> accept bell_module counting_visitor ([], 0)
       = (Inl (AttributeError ''_register''), [(VisitCirqModule bell_module, None)], 1)"
proof -
  have "visit_cirq_module counting_visitor bell_module 0 = (None, 1)"
    by (simp add: counting_visitor_def)
  with from_circuit_bell accept_from_circuit [OF from_circuit_bell, of counting_visitor 0 1 "[]"]
  show ?thesis by simp
qed

subsection \<open>Visitor failures\<close>

lemma clean_append [simp]: "clean (l @ l') = (clean l \<and> clean l')"
  by (simp add: clean_def)

lemma clean_Cons [simp]: "clean ((c, out) # l) = (out = None \<and> clean l)"
  by (simp add: clean_def)

lemma clean_Nil [simp]: "clean []"
  by (simp add: clean_def)

lemma invoke_aborted: "clean (fst st) \<Longrightarrow> aborted_at_raise (invoke c f st)"
  by (cases st) (auto simp: invoke_def split: prod.splits option.splits)

lemma aborted_Inr: "aborted_at_raise (Inr u, st) \<Longrightarrow> clean (fst st)"
  by (cases st) simp

lemma seq_aborted:
  assumes p: "\<And>st. clean (fst st) \<Longrightarrow> aborted_at_raise (p st)"
    and q: "\<And>st. clean (fst st) \<Longrightarrow> aborted_at_raise (q st)"
    and st: "clean (fst st)"
  shows "aborted_at_raise (seq p q st)"
proof -
  obtain r l' s' where run: "p st = (r, l', s')"
    by (metis prod_cases3)
  show ?thesis
  proof (cases r)
    case (Inl e)
    with run p [OF st] show ?thesis by (simp add: seq_def)
  next
    case (Inr u)
    with run p [OF st] have "clean (fst (l', s'))" by (auto dest: aborted_Inr)
    then have "aborted_at_raise (q (l', s'))" by (rule q)
    with run Inr show ?thesis by (simp add: seq_def)
  qed
qed

lemma element_accept_aborted: "clean (fst st) \<Longrightarrow> aborted_at_raise (element_accept e v st)"
proof (cases e)
  case (Register r)
  assume "clean (fst st)"
  then show ?thesis using Register
    by (cases r; cases st) (auto intro: invoke_aborted)
next
  case (Operation op)
  assume "clean (fst st)"
  then show ?thesis using Operation by (auto intro: invoke_aborted)
qed

lemma accept_elements_aborted:
  "clean (fst st) \<Longrightarrow> aborted_at_raise (accept_elements es v st)"
proof (induction es arbitrary: st)
  case Nil
  then show ?case by (cases st) simp
next
  case (Cons e es)
  have "aborted_at_raise (seq (element_accept e v) (accept_elements es v) st)"
    by (rule seq_aborted) (auto intro: element_accept_aborted Cons)
  then show ?case by simp
qed

lemma accept_aborted: "clean (fst st) \<Longrightarrow> aborted_at_raise (accept m v st)"
  unfolding accept_def
  by (intro seq_aborted invoke_aborted accept_elements_aborted)

lemma aborted_at_raise_last:
  assumes "aborted_at_raise (r, pre @ (c, Some x) # post, s)"
  shows "post = [] \<and> r = Inl (Raised x)"
proof (cases r)
  case (Inr u)
  with assms show ?thesis by simp
next
  case (Inl e)
  show ?thesis
  proof (cases e)
    case (AttributeError a)
    with Inl assms show ?thesis by simp
  next
    case (Raised y)
    with Inl assms obtain l c' where l: "pre @ (c, Some x) # post = l @ [(c', Some y)]" "clean l"
      by auto
    show ?thesis
    proof (cases post rule: rev_cases)
      case Nil
      with l Inl Raised show ?thesis by simp
    next
      case (snoc post' ev)
      with l have "l = pre @ (c, Some x) # post'" by simp
      with l(2) show ?thesis by simp
    qed
  qed
qed

text \<open>
  C8. Whatever the module and the visitor: if a call on the visitor raised \<open>x\<close> during
  \<^verbatim>\<open>accept\<close>, then \<^verbatim>\<open>accept\<close> ends with this same exception \<open>x\<close>, and that call is the
  last one made on the visitor (no later element is visited, \<^verbatim>\<open>record_output\<close> and
  \<^verbatim>\<open>finalize\<close> are not called, nothing is retried).
\<close>

theorem accept_aborts_at_visitor_failure:
  assumes "accept m v ([], s0) = (r, log, s)" and "log = pre @ (c, Some x) # post"
  shows "post = [] \<and> r = Inl (Raised x)"
proof -
  have "aborted_at_raise (accept m v ([], s0))"
    by (rule accept_aborted) simp
  with assms show ?thesis by (simp add: aborted_at_raise_last)
qed

theorem accept_aborts_at_visitor_failure_witness:
  "accept operations_module failing_visitor ([], 0)
     = (Inl (Raised ''unsupported gate''),
        [(VisitCirqModule operations_module, None), (VisitOperation (''H'', [''q0'']), None)]
          @ (VisitOperation (''CNOT'', [''q0'', ''q1'']), Some ''unsupported gate'') # [],
        2)"
proof -
  have run: "accept operations_module failing_visitor ([], 0)
     = (Inl (Raised ''unsupported gate''),
        [(VisitCirqModule operations_module, None), (VisitOperation (''H'', [''q0'']), None),
         (VisitOperation (''CNOT'', [''q0'', ''q1'']), Some ''unsupported gate'')], 2)"
    by (simp add: accept_def seq_def invoke_def operations_module_def failing_visitor_def
        counting_visitor_def Operation_init_def)
  have log: "[(VisitCirqModule operations_module, None), (VisitOperation (''H'', [''q0'']), None),
         (VisitOperation (''CNOT'', [''q0'', ''q1'']), Some ''unsupported gate'')]
      = [(VisitCirqModule operations_module, None), (VisitOperation (''H'', [''q0'']), None)]
          @ (VisitOperation (''CNOT'', [''q0'', ''q1'']), Some ''unsupported gate'') # []"
    by simp
  from accept_aborts_at_visitor_failure [OF run log] run show ?thesis by simp
qed

end
